theory Spec2Isabelle
  imports Complex_Main "HOL-Library.List_Lexorder" "HOL-Library.Char_ord"
begin

section \<open>Values shared by the notebooks\<close>

text \<open>
  The notebooks are Python glue around pandas, NumPy, scikit-learn and nilearn. Exceptions
  are values of \<open>py_error\<close>; a computation that may raise returns \<open>py_error + 'a\<close>.
  A float64 is a real number or one of the three special values; rounding of finite values
  is not modelled.
\<close>

datatype py_error =
  ValueError | IndexError | ZeroDivisionError | TypeError | NameError | SyntaxError

text \<open>Sequencing of statements that may raise: the first exception ends the computation.\<close>

definition bind_err :: "py_error + 'a \<Rightarrow> ('a \<Rightarrow> py_error + 'b) \<Rightarrow> py_error + 'b" where
  "bind_err r f = (case r of Inl e \<Rightarrow> Inl e | Inr v \<Rightarrow> f v)"

fun sequence_err :: "(py_error + 'a) list \<Rightarrow> py_error + 'a list" where
  "sequence_err [] = Inr []"
| "sequence_err (r # rs) =
     bind_err r (\<lambda>v. bind_err (sequence_err rs) (\<lambda>vs. Inr (v # vs)))"

datatype np_float = Finite real | PInf | NInf | NaN



section \<open>Activation notebook: \<open>calc_prop_sig\<close>\<close>

text \<open>An array of one or of two dimensions; \<open>Arr2\<close> holds the rows.\<close>

datatype 'a ndarray = Arr1 "'a list" | Arr2 "'a list list"



text \<open>\<open>len(x)\<close>: the length of the first axis.\<close>

fun len :: "'a ndarray \<Rightarrow> nat" where
  "len (Arr1 xs) = length xs"
| "len (Arr2 rows) = length rows"


section \<open>MVPA notebook: trial selection\<close>

text \<open>
  The behavioural table \<open>tr_info\<close> is a pandas DataFrame read from the Haxby target file, of
  which the code reads the columns \<open>labels\<close> and \<open>chunks\<close>. All columns of a DataFrame share
  one index, so the table is a list of rows; \<open>behavioral['labels']\<close> is \<open>map labels behavioral\<close>.
\<close>

record trial =
  labels :: string
  chunks :: int

text \<open>
  \<open>Series.isin(values)\<close>: pandas builds a hash table of \<open>values\<close> and looks every element
  of the series up in it.
\<close>

definition isin :: "'a list \<Rightarrow> 'a list \<Rightarrow> bool list" where
  "isin series vals = (let table = set vals in map (\<lambda>x. x \<in> table) series)"

text \<open>
  \<open>series[mask]\<close> for a boolean Series \<open>mask\<close> computed from a column of the same DataFrame:
  the index is shared, so the selection is positional and keeps the order.
\<close>

definition series_mask :: "'a list \<Rightarrow> bool list \<Rightarrow> 'a list" where
  "series_mask series msk = map fst (filter snd (zip series msk))"

text \<open>
  \<open>arr[mask]\<close> on the first axis of a NumPy array, with a Python list of booleans as mask:
  a list whose length is not that of the axis raises IndexError, except the empty list, which
  NumPy reads as an empty integer index and which selects nothing.
\<close>

definition np_bool_index :: "'a list \<Rightarrow> bool list \<Rightarrow> py_error + 'a list" where
  "np_bool_index arr msk =
     (if msk = [] then Inr []
      else if length msk \<noteq> length arr then Inl IndexError
      else Inr (map fst (filter snd (zip arr msk))))"

text \<open>
  nilearn's \<open>index_img(img, mask)\<close> on the frames of an image, with a boolean Series as
  mask: the Series becomes a boolean array, and a boolean array whose length is not the number
  of frames raises IndexError.
\<close>

definition index_img :: "'x list \<Rightarrow> bool list \<Rightarrow> py_error + 'x list" where
  "index_img img msk =
     (if length msk \<noteq> length img then Inl IndexError
      else Inr (map fst (filter snd (zip img msk))))"

text \<open>
  \<^verbatim>\<open>
  condition_mask = behavioral['labels'].isin(conditions_arr)
  conditions_sel = behavioral['labels'][condition_mask]
  run_sel = behavioral['chunks'][condition_mask]
  fmri_sel = index_img(fmri_str, condition_mask)
  return fmri_sel, conditions_sel, run_sel
  \<close>
  The image is the list of its frames.
\<close>

definition condition_mask :: "trial list \<Rightarrow> string list \<Rightarrow> bool list" where
  "condition_mask behavioral conditions_arr = isin (map labels behavioral) conditions_arr"

definition select_data ::
  "'x list \<Rightarrow> trial list \<Rightarrow> string list \<Rightarrow> py_error + ('x list \<times> string list \<times> int list)" where
  "select_data fmri_str behavioral conditions_arr =
     (let msk = condition_mask behavioral conditions_arr;
          conditions_sel = series_mask (map labels behavioral) msk;
          run_sel = series_mask (map chunks behavioral) msk
      in case index_img fmri_str msk of
           Inl e \<Rightarrow> Inl e
         | Inr fmri_sel \<Rightarrow> Inr (fmri_sel, conditions_sel, run_sel))"

text \<open>
  \<open>x in categories\<close> for a NumPy array \<open>categories\<close> is \<open>(categories == x).any()\<close>; the mask of
  \<open>run_class_zmap\<close> is the list comprehension \<^verbatim>\<open>[x in categories for x in task_label_arg]\<close>.
\<close>

definition np_contains :: "'a list \<Rightarrow> 'a \<Rightarrow> bool" where
  "np_contains categories x = foldr (\<or>) (map (\<lambda>c. c = x) categories) False"

definition sel_mask :: "'a list \<Rightarrow> 'a list \<Rightarrow> bool list" where
  "sel_mask task_label_arg categories = map (np_contains categories) task_label_arg"

text \<open>The positions a boolean mask selects.\<close>

definition positions :: "bool list \<Rightarrow> nat list" where
  "positions msk = filter (\<lambda>i. msk ! i) [0..<length msk]"

section \<open>MVPA notebook: cross-validated decoding\<close>

text \<open>\<open>np.unique\<close>: the distinct values, sorted.\<close>

definition np_unique :: "'a::linorder list \<Rightarrow> 'a list" where
  "np_unique xs = sort (remdups xs)"

text \<open>
  scikit-learn's \<open>LeaveOneGroupOut().split(X, y, groups)\<close>, the splitter both evaluation
  functions hand to the decoder. It takes the unique groups, raises ValueError when there
  are fewer than two (\<open>LeaveOneGroupOut expects at least 2\<close>), and yields for each unique
  group \<open>g\<close>, in ascending order, the pair \<open>(train_index, test_index)\<close> cut out of
  \<open>np.arange(n_samples)\<close> by the mask \<open>groups == g\<close> and its negation.
\<close>

definition LeaveOneGroupOut_split :: "int list \<Rightarrow> py_error + (nat list \<times> nat list) list" where
  "LeaveOneGroupOut_split groups =
     (let unique_groups = np_unique groups in
      if length unique_groups \<le> 1 then Inl ValueError
      else Inr (map (\<lambda>g. let test_mask = map (\<lambda>x. x = g) groups;
                               indices = [0..<length groups]
                           in (filter (\<lambda>i. \<not> test_mask ! i) indices,
                               filter (\<lambda>i. test_mask ! i) indices))
                  unique_groups))"

text \<open>
  A fit decoder, as far as the notebook reads it: \<open>classes_\<close> and the dict \<open>cv_scores_\<close>
  from each class to its list of scores, one per fold (the fields \<open>classes\<close> and
  \<open>cv_scores\<close>: a name cannot end in an underscore here).
\<close>

record decoder =
  classes :: "string list"
  cv_scores :: "(string \<times> real list) list"

text \<open>
  The estimator behind nilearn's \<open>Decoder\<close> is not part of the notebooks; it is a parameter
  with two parts. \<open>apply_mask est msk X\<close> is the masking of the samples, which gives the
  samples restricted to the mask or raises. \<open>fold_score est msk X y c (train, test)\<close> is
  the fit of the linear SVC for the problem of class \<open>c\<close> on one fold and its score on the
  held-out samples, or the exception the fit raises.
\<close>

record ('m, 'x) estimator =
  apply_mask :: "'m \<Rightarrow> 'x list \<Rightarrow> py_error + 'x list"
  fold_score :: "'m \<Rightarrow> 'x list \<Rightarrow> string list \<Rightarrow> string \<Rightarrow> nat list \<times> nat list
                   \<Rightarrow> py_error + real"

text \<open>
  \<open>Decoder(..., cv=LeaveOneGroupOut()).fit(X, y, groups=groups)\<close>: the samples are masked
  first; samples, labels and groups must agree in number; the folds are those of the
  splitter; \<open>classes_\<close> are the unique labels of \<open>y\<close>; every class gets one score per fold.
\<close>

definition Decoder_fit ::
  "('m, 'x) estimator \<Rightarrow> 'm \<Rightarrow> 'x list \<Rightarrow> string list \<Rightarrow> int list \<Rightarrow> py_error + decoder" where
  "Decoder_fit est msk X y groups =
     bind_err (apply_mask est msk X) (\<lambda>X_masked.
     if length X_masked \<noteq> length y \<or> length groups \<noteq> length y then Inl ValueError
     else
       bind_err (LeaveOneGroupOut_split groups) (\<lambda>folds.
       bind_err (sequence_err (map (\<lambda>c.
                   bind_err (sequence_err (map (fold_score est msk X_masked y c) folds))
                     (\<lambda>scores. Inr (c, scores)))
                 (np_unique y))) (\<lambda>scores.
       Inr \<lparr>classes = np_unique y, cv_scores = scores\<rparr>)))"

text \<open>
  \<open>np.mean\<close> of a list of lists: lists of unequal lengths do not make an array (ValueError);
  otherwise the mean is taken over all entries, and the mean of no entries is nan.
\<close>

definition np_mean :: "real list list \<Rightarrow> py_error + np_float" where
  "np_mean rows =
     (if \<not> list_all (\<lambda>r. length r = length (hd rows)) rows then Inl ValueError
      else let flat = concat rows in
        if flat = [] then Inr NaN
        else Inr (Finite (sum_list flat / real (length flat))))"

text \<open>
  \<^verbatim>\<open>
  classification_accuracy = np.mean(list(d.cv_scores_.values()))
  chance_level = 1. / len(d.classes_)
  print('Classifying {}'.format(d.classes_))
  print('Classification accuracy: {:.4f} / Chance level: {}'.format(
      classification_accuracy, chance_level))
  return classification_accuracy
  \<close>
  What is printed is the \<open>report\<close>; the formatting of the numbers is not modelled.
\<close>

record report =
  rep_classes :: "string list"
  rep_accuracy :: np_float
  rep_chance :: real

definition print_class_accuracy :: "decoder \<Rightarrow> py_error + (report \<times> np_float)" where
  "print_class_accuracy d =
     bind_err (np_mean (map snd (cv_scores d))) (\<lambda>classification_accuracy.
     if length (classes d) = 0 then Inl ZeroDivisionError
     else let chance_level = 1 / real (length (classes d)) in
       Inr (\<lparr>rep_classes = classes d, rep_accuracy = classification_accuracy,
              rep_chance = chance_level\<rparr>, classification_accuracy))"

text \<open>
  \<^verbatim>\<open>
  cv = LeaveOneGroupOut()
  fmri_sel, cond_sel, run_sel = select_data(fmri_data, behav_df, conditions_arr)
  decoder = Decoder(estimator='svc', mask=mask, ..., cv=cv)
  decoder.fit(fmri_sel, cond_sel, groups=run_sel)
  avg_class_accuracy = print_class_accuracy(decoder)
  return decoder
  \<close>
\<close>

definition svm_loro_cv ::
  "('m, 'x) estimator \<Rightarrow> 'x list \<Rightarrow> trial list \<Rightarrow> 'm \<Rightarrow> string list
     \<Rightarrow> py_error + (report \<times> decoder)" where
  "svm_loro_cv est fmri_data behav_df msk conditions_arr =
     bind_err (select_data fmri_data behav_df conditions_arr) (\<lambda>(fmri_sel, cond_sel, run_sel).
     bind_err (Decoder_fit est msk fmri_sel cond_sel run_sel) (\<lambda>decoder.
     bind_err (print_class_accuracy decoder) (\<lambda>(rep, avg_class_accuracy).
     Inr (rep, decoder))))"

text \<open>
  \<^verbatim>\<open>
  sel_mask = [x in categories for x in task_label_arg]
  z_maps_sel = z_maps_arg[sel_mask]
  task_sel = task_label_arg[sel_mask]
  run_sel = run_label_arg[sel_mask]
  decoder = Decoder(estimator='svc', mask=mask, ..., cv=LeaveOneGroupOut())
  decoder.fit(z_maps_sel, task_sel, groups=run_sel)
  avg_acc = print_class_accuracy(decoder)
  return avg_acc
  \<close>
\<close>

definition run_class_zmap ::
  "('m, 'x) estimator \<Rightarrow> 'x list \<Rightarrow> string list \<Rightarrow> int list \<Rightarrow> 'm \<Rightarrow> string list
     \<Rightarrow> py_error + (report \<times> np_float)" where
  "run_class_zmap est z_maps_arg task_label_arg run_label_arg msk categories =
     (let sm = sel_mask task_label_arg categories in
      bind_err (np_bool_index z_maps_arg sm) (\<lambda>z_maps_sel.
      bind_err (np_bool_index task_label_arg sm) (\<lambda>task_sel.
      bind_err (np_bool_index run_label_arg sm) (\<lambda>run_sel.
      bind_err (Decoder_fit est msk z_maps_sel task_sel run_sel) (\<lambda>decoder.
      bind_err (print_class_accuracy decoder) (\<lambda>(rep, avg_acc).
      Inr (rep, avg_acc)))))))"

section \<open>MVPA notebook: the sweep over regions and category pairs\<close>

text \<open>
  The sweep is a run of notebook cells, each assigning the value of one \<open>run_class_zmap\<close>
  call to a global variable, followed by the cell that builds the DataFrame \<open>df\<close>. The
  globals are a dict. A cell that raises shows its traceback and assigns nothing; reading a
  variable that was never assigned raises NameError. (Run All stops at the first cell that
  raises, so the later cells assign nothing either.)
\<close>

type_synonym namespace = "string \<rightharpoonup> np_float"

definition assign_cell :: "string \<Rightarrow> py_error + (report \<times> np_float) \<Rightarrow> namespace \<Rightarrow> namespace" where
  "assign_cell name r ns = (case r of Inl e \<Rightarrow> ns | Inr (rep, v) \<Rightarrow> ns(name \<mapsto> v))"

definition read_name :: "namespace \<Rightarrow> string \<Rightarrow> py_error + np_float" where
  "read_name ns name = (case ns name of None \<Rightarrow> Inl NameError | Some v \<Rightarrow> Inr v)"

text \<open>\<open>x * 100\<close> on a float64.\<close>

fun np_times100 :: "np_float \<Rightarrow> np_float" where
  "np_times100 (Finite a) = Finite (a * 100)"
| "np_times100 PInf = PInf"
| "np_times100 NInf = NInf"
| "np_times100 NaN = NaN"

text \<open>A DataFrame built from a dict of columns: the columns in order, each with its name.\<close>

datatype cell = Num np_float | Str string

type_synonym dataframe = "(string \<times> cell list) list"

definition df_row :: "dataframe \<Rightarrow> nat \<Rightarrow> cell list" where
  "df_row df i = map (\<lambda>(name, col). col ! i) df"

text \<open>
  \<^verbatim>\<open>
  acc_all_data = np.array((res_FvH_vtc, res_FvH_ffa, res_FvH_ppa,
                           res_CvS_vtc, res_CvS_ffa, res_CvS_ppa)) * 100
  classification_categories = np.append(np.repeat("Faces vs. Places", 3),
                                        np.repeat("Cats vs. Shoes", 3))
  region_of_interest = np.array(("VTC", "FFA", "PPA", "VTC", "FFA", "PPA"))
  df = pd.DataFrame({"Classification accuracy" : acc_all_data,
                     "Classification categories" : classification_categories,
                     "Region of interest" : region_of_interest})
  \<close>
\<close>

definition results_df :: "namespace \<Rightarrow> py_error + dataframe" where
  "results_df ns =
     bind_err (sequence_err (map (read_name ns)
        [''res_FvH_vtc'', ''res_FvH_ffa'', ''res_FvH_ppa'',
         ''res_CvS_vtc'', ''res_CvS_ffa'', ''res_CvS_ppa''])) (\<lambda>res.
     let acc_all_data = map np_times100 res;
         classification_categories =
           replicate 3 ''Faces vs. Places'' @ replicate 3 ''Cats vs. Shoes'';
         region_of_interest = [''VTC'', ''FFA'', ''PPA'', ''VTC'', ''FFA'', ''PPA'']
     in Inr [(''Classification accuracy'', map Num acc_all_data),
             (''Classification categories'', map Str classification_categories),
             (''Region of interest'', map Str region_of_interest)])"

text \<open>
  The cells in notebook order. The two cells for cats against shoes in the house and the
  face mask are left to the student (\<^verbatim>\<open>res_CvS_ppa = \<close> after \<open>INPUT YOUR CODE HERE\<close>);
  what the student writes there is the parameter \<open>cell_CvS_ppa\<close>, \<open>cell_CvS_ffa\<close>. As
  shipped each of the two is \<open>Inl SyntaxError\<close>.
\<close>

definition sweep_cells ::
  "('m, 'x) estimator \<Rightarrow> 'x list \<Rightarrow> string list \<Rightarrow> int list \<Rightarrow> 'm \<Rightarrow> 'm \<Rightarrow> 'm
     \<Rightarrow> py_error + (report \<times> np_float) \<Rightarrow> py_error + (report \<times> np_float)
     \<Rightarrow> namespace \<Rightarrow> namespace" where
  "sweep_cells est z_maps task_label_glm run_label_glm mask_vt mask_house mask_face
       cell_CvS_ppa cell_CvS_ffa =
     assign_cell ''res_CvS_ffa'' cell_CvS_ffa
     \<circ> assign_cell ''res_FvH_ffa''
         (run_class_zmap est z_maps task_label_glm run_label_glm mask_face [''face'', ''house''])
     \<circ> assign_cell ''res_CvS_ppa'' cell_CvS_ppa
     \<circ> assign_cell ''res_FvH_ppa''
         (run_class_zmap est z_maps task_label_glm run_label_glm mask_house [''face'', ''house''])
     \<circ> assign_cell ''res_CvS_vtc''
         (run_class_zmap est z_maps task_label_glm run_label_glm mask_vt [''cat'', ''shoe''])
     \<circ> assign_cell ''res_FvH_vtc''
         (run_class_zmap est z_maps task_label_glm run_label_glm mask_vt [''face'', ''house''])"

definition sweep ::
  "('m, 'x) estimator \<Rightarrow> 'x list \<Rightarrow> string list \<Rightarrow> int list \<Rightarrow> 'm \<Rightarrow> 'm \<Rightarrow> 'm
     \<Rightarrow> py_error + (report \<times> np_float) \<Rightarrow> py_error + (report \<times> np_float)
     \<Rightarrow> py_error + dataframe" where
  "sweep est z_maps task_label_glm run_label_glm mask_vt mask_house mask_face
       cell_CvS_ppa cell_CvS_ffa =
     results_df (sweep_cells est z_maps task_label_glm run_label_glm mask_vt mask_house mask_face
                   cell_CvS_ppa cell_CvS_ffa Map.empty)"

section \<open>Reference notions the claims compare against\<close>

text \<open>The arithmetic mean of a non-empty list.\<close>

definition mean :: "real list \<Rightarrow> real" where
  "mean xs = sum_list xs / real (length xs)"

text \<open>
  The accuracy of fold \<open>j\<close> of a fit decoder: the score of that fold, averaged over the
  classes. For two classes nilearn fits one problem and files its scores under both classes,
  so this is the score of the fold.
\<close>

definition fold_accuracy :: "decoder \<Rightarrow> nat \<Rightarrow> real" where
  "fold_accuracy d j = mean (map (\<lambda>(c, scores). scores ! j) (cv_scores d))"

text \<open>
  An example estimator for concrete runs: masking raises IndexError when there is no sample
  and keeps the samples otherwise; the classifier separates the categories on every split,
  so that every fold of every class scores 1.
\<close>

definition est_perfect :: "(unit, unit) estimator" where
  "est_perfect =
     \<lparr>apply_mask = (\<lambda>msk X. if X = [] then Inl IndexError else Inr X),
      fold_score = (\<lambda>msk X y c split. Inr 1)\<rparr>"

text \<open>
  Example data for concrete runs: two runs with one z-map per category and run.
\<close>

definition example_z_maps :: "unit list" where
  "example_z_maps = [(), (), (), (), (), (), (), ()]"

definition example_task_label :: "string list" where
  "example_task_label =
     [''face'', ''house'', ''cat'', ''shoe'', ''face'', ''house'', ''cat'', ''shoe'']"

definition example_run_label :: "int list" where
  "example_run_label = [0, 0, 0, 0, 1, 1, 1, 1]"

section \<open>Helper lemmas\<close>

lemma np_contains_iff: "np_contains categories x \<longleftrightarrow> x \<in> set categories"
  unfolding np_contains_def by (induction categories) auto

lemma series_mask_map:
  "series_mask (map f rows) (map p rows) = map f (filter p rows)"
  unfolding series_mask_def by (induction rows) auto

lemma bool_index_map:
  "map fst (filter snd (zip xs (map p ys))) = map fst (filter (\<lambda>(x, y). p y) (zip xs ys))"
  by (induction xs arbitrary: ys) (auto simp: zip_Cons1 split: list.splits)

lemma filter_positions:
  "map ((!) xs) (filter (\<lambda>i. p (xs ! i)) [0..<length xs]) = filter p xs"
proof -
  have "filter p xs = filter p (map ((!) xs) [0..<length xs])"
    by (simp only: map_nth)
  also have "\<dots> = map ((!) xs) (filter (p \<circ> (!) xs) [0..<length xs])"
    by (simp only: filter_map)
  finally show ?thesis by (simp add: comp_def)
qed

lemma bool_index_positions:
  assumes "length xs = length ys"
  shows "map fst (filter snd (zip xs (map p ys)))
         = map ((!) xs) (filter (\<lambda>i. p (ys ! i)) [0..<length ys])"
proof -
  let ?zs = "zip xs ys"
  have "map fst (filter snd (zip xs (map p ys))) = map fst (filter (\<lambda>z. p (snd z)) ?zs)"
    by (simp add: bool_index_map case_prod_unfold)
  also have "filter (\<lambda>z. p (snd z)) ?zs
             = map ((!) ?zs) (filter (\<lambda>i. p (snd (?zs ! i))) [0..<length ?zs])"
    by (rule filter_positions [symmetric])
  also have "map fst \<dots> = map ((!) xs) (filter (\<lambda>i. p (ys ! i)) [0..<length ys])"
    using assms by (auto simp: comp_def intro!: map_cong filter_cong)
  finally show ?thesis .
qed

lemma positions_map:
  "positions (map p xs) = filter (\<lambda>i. p (xs ! i)) [0..<length xs]"
  unfolding positions_def by (rule filter_cong) auto

lemma np_unique_props:
  "set (np_unique xs) = set xs" "distinct (np_unique xs)" "sorted (np_unique xs)"
  "length (np_unique xs) = card (set xs)"
  by (simp_all add: np_unique_def length_remdups_card_conv)

lemma LeaveOneGroupOut_split_eq:
  "LeaveOneGroupOut_split groups =
     (if card (set groups) \<le> 1 then Inl ValueError
      else Inr (map (\<lambda>g. (filter (\<lambda>i. groups ! i \<noteq> g) [0..<length groups],
                          filter (\<lambda>i. groups ! i = g) [0..<length groups]))
                  (np_unique groups)))"
proof -
  have "filter (\<lambda>i. P (map (\<lambda>x. x = g) groups ! i)) [0..<length groups]
        = filter (\<lambda>i. P (groups ! i = g)) [0..<length groups]" for g P
    by (rule filter_cong) auto
  from this [of "\<lambda>b. \<not> b"] this [of "\<lambda>b. b"] show ?thesis
    by (simp add: LeaveOneGroupOut_split_def Let_def np_unique_props(4))
qed

lemma distinct_concat_tests:
  assumes "distinct us" "distinct idx"
  shows "distinct (concat (map (\<lambda>g. filter (\<lambda>i. f i = g) idx) us))"
  using assms(1)
proof (induction us)
  case Nil
  show ?case by simp
next
  case (Cons u us)
  then show ?case using assms(2) by auto
qed

lemma set_concat_tests:
  "set (concat (map (\<lambda>g. filter (\<lambda>i. f i = g) idx) us)) = {i \<in> set idx. f i \<in> set us}"
  by auto

lemma sum_list_concat_columns:
  fixes rows :: "real list list"
  assumes "\<forall>r\<in>set rows. length r = n"
  shows "sum_list (concat rows) = sum_list (map (\<lambda>j. sum_list (map (\<lambda>r. r ! j) rows)) [0..<n])"
  using assms
proof (induction rows)
  case Nil
  show ?case by simp
next
  case (Cons r rows)
  have "sum_list r = sum_list (map ((!) r) [0..<n])"
    using Cons.prems by (metis list.set_intros(1) map_nth)
  then show ?case
    using Cons by (simp add: sum_list_addf)
qed

lemma length_concat_rect:
  assumes "\<forall>r\<in>set rows. length r = n"
  shows "length (concat rows) = length rows * n"
  using assms by (induction rows) auto

lemma sum_list_divide_const:
  fixes f :: "'a \<Rightarrow> real"
  shows "sum_list (map (\<lambda>j. f j / k) js) = sum_list (map f js) / k"
  by (induction js) (auto simp: add_divide_distrib)

lemma pooled_mean_eq_mean_of_folds:
  fixes rows :: "real list list"
  assumes "\<forall>r\<in>set rows. length r = n" "rows \<noteq> []" "0 < n"
  shows "sum_list (concat rows) / real (length (concat rows))
         = mean (map (\<lambda>j. mean (map (\<lambda>r. r ! j) rows)) [0..<n])"
proof -
  have "mean (map (\<lambda>j. mean (map (\<lambda>r. r ! j) rows)) [0..<n])
        = sum_list (map (\<lambda>j. sum_list (map (\<lambda>r. r ! j) rows)) [0..<n]) / real (length rows) / real n"
    by (simp add: mean_def sum_list_divide_const)
  also have "\<dots> = sum_list (concat rows) / (real (length rows) * real n)"
    by (simp add: sum_list_concat_columns [OF assms(1)])
  finally show ?thesis
    by (simp add: length_concat_rect [OF assms(1)])
qed

lemma concat_rect_nonempty:
  assumes "\<forall>r\<in>set rows. length r = n" "rows \<noteq> []" "0 < n"
  shows "concat rows \<noteq> []"
proof -
  have "0 < length rows * n" using assms(2,3) by simp
  then have "0 < length (concat rows)" by (simp only: length_concat_rect [OF assms(1)])
  then show ?thesis by simp
qed

lemma np_mean_rect:
  assumes "\<forall>r\<in>set rows. length r = n" "rows \<noteq> []" "0 < n"
  shows "np_mean rows = Inr (Finite (sum_list (concat rows) / real (length (concat rows))))"
proof -
  have "hd rows \<in> set rows" using assms(2) by simp
  then have "list_all (\<lambda>r. length r = length (hd rows)) rows"
    using assms(1) by (simp add: list_all_iff)
  then show ?thesis
    using concat_rect_nonempty [OF assms] by (simp add: np_mean_def Let_def)
qed

lemma sum_list_unit_bounds:
  fixes xs :: "real list"
  assumes "\<forall>x\<in>set xs. 0 \<le> x \<and> x \<le> 1"
  shows "0 \<le> sum_list xs \<and> sum_list xs \<le> real (length xs)"
  using assms by (induction xs) auto

lemma bind_err_Inr_iff: "bind_err r f = Inr v \<longleftrightarrow> (\<exists>x. r = Inr x \<and> f x = Inr v)"
  by (cases r) (auto simp: bind_err_def)

lemma bind_err_Inl [simp]: "bind_err (Inl e) f = Inl e"
  by (simp add: bind_err_def)

lemma bind_err_Inr [simp]: "bind_err (Inr x) f = f x"
  by (simp add: bind_err_def)

lemma np_bool_index_self:
  "np_bool_index xs (map p xs) = Inr (filter p xs)"
proof -
  have "map fst (filter snd (zip xs (map p xs))) = filter p xs"
    by (induction xs) auto
  then show ?thesis by (simp add: np_bool_index_def)
qed

lemma sel_mask_map: "sel_mask xs categories = map (\<lambda>x. x \<in> set categories) xs"
proof -
  have "np_contains categories = (\<lambda>x. x \<in> set categories)"
    by (rule ext) (rule np_contains_iff)
  then show ?thesis by (simp add: sel_mask_def)
qed

lemma Decoder_fit_Inr_iff:
  "Decoder_fit est msk X y groups = Inr d \<longleftrightarrow>
     (\<exists>X_masked folds scores.
        apply_mask est msk X = Inr X_masked
      \<and> length X_masked = length y \<and> length groups = length y
      \<and> LeaveOneGroupOut_split groups = Inr folds
      \<and> sequence_err (map (\<lambda>c.
            bind_err (sequence_err (map (fold_score est msk X_masked y c) folds))
              (\<lambda>scores. Inr (c, scores))) (np_unique y)) = Inr scores
      \<and> d = \<lparr>classes = np_unique y, cv_scores = scores\<rparr>)"
proof (cases "apply_mask est msk X")
  case (Inl e)
  then show ?thesis by (simp add: Decoder_fit_def)
next
  case m: (Inr X_masked)
  show ?thesis
  proof (cases "LeaveOneGroupOut_split groups")
    case (Inl e)
    then show ?thesis by (simp add: Decoder_fit_def m)
  next
    case f: (Inr folds)
    show ?thesis
      by (simp add: Decoder_fit_def m f bind_err_Inr_iff) blast
  qed
qed

lemma Decoder_fit_classes:
  assumes "Decoder_fit est msk X y groups = Inr d"
  shows "classes d = np_unique y"
  using assms unfolding Decoder_fit_Inr_iff by auto

lemma Decoder_fit_no_fold:
  assumes "card (set groups) < 2"
  shows "\<exists>e. Decoder_fit est msk X y groups = Inl e"
proof (cases "apply_mask est msk X")
  case (Inl e)
  then show ?thesis by (simp add: Decoder_fit_def)
next
  case (Inr X_masked)
  have "LeaveOneGroupOut_split groups = Inl ValueError"
    using assms by (simp add: LeaveOneGroupOut_split_eq)
  then show ?thesis by (simp add: Decoder_fit_def Inr)
qed

lemma sequence_err_Inr: "sequence_err rs = Inr vs \<longleftrightarrow> rs = map Inr vs"
  by (induction rs arbitrary: vs) (auto simp: bind_err_Inr_iff Cons_eq_map_conv)

lemma Decoder_fit_scores:
  assumes "Decoder_fit est msk X y groups = Inr d"
  shows "2 \<le> card (set groups)" and "classes d \<noteq> []" and "cv_scores d \<noteq> []"
    and "\<forall>cs\<in>set (cv_scores d). length (snd cs) = card (set groups)"
proof -
  let ?F = "\<lambda>X_masked folds c.
     bind_err (sequence_err (map (fold_score est msk X_masked y c) folds))
       (\<lambda>scores. Inr (c, scores))"
  from assms obtain X_masked folds scores where
    len: "length groups = length y"
    and split: "LeaveOneGroupOut_split groups = Inr folds"
    and seq: "sequence_err (map (?F X_masked folds) (np_unique y)) = Inr scores"
    and d: "d = \<lparr>classes = np_unique y, cv_scores = scores\<rparr>"
    unfolding Decoder_fit_Inr_iff by blast
  have le: "\<not> card (set groups) \<le> 1"
    using split by (simp add: LeaveOneGroupOut_split_eq split: if_splits)
  then show two: "2 \<le> card (set groups)" by simp
  have "length folds = length (np_unique groups)"
    using split le by (auto simp: LeaveOneGroupOut_split_eq)
  then have folds: "length folds = card (set groups)"
    by (simp only: np_unique_props(4))
  from two have "groups \<noteq> []" by auto
  then have "y \<noteq> []" using len by auto
  then have "set (np_unique y) \<noteq> {}" by (simp add: np_unique_props(1))
  then have u: "np_unique y \<noteq> []" by auto
  then show "classes d \<noteq> []" by (simp add: d)
  from seq have m: "map (?F X_masked folds) (np_unique y) = map Inr scores"
    by (simp only: sequence_err_Inr)
  have "length (map (?F X_masked folds) (np_unique y)) = length (map Inr scores :: (py_error + string \<times> real list) list)"
    by (simp only: m)
  then have "length scores = length (np_unique y)" by simp
  then show "cv_scores d \<noteq> []" using u by (auto simp: d)
  show "\<forall>cs\<in>set (cv_scores d). length (snd cs) = card (set groups)"
  proof
    fix cs assume "cs \<in> set (cv_scores d)"
    then have "Inr cs \<in> set (map Inr scores)" by (simp add: d)
    then have "Inr cs \<in> set (map (?F X_masked folds) (np_unique y))" by (simp only: m)
    then obtain c where "?F X_masked folds c = Inr cs" by auto
    then obtain sc where s: "sequence_err (map (fold_score est msk X_masked y c) folds) = Inr sc"
      and cs: "cs = (c, sc)"
      unfolding bind_err_Inr_iff by auto
    from s have "map (fold_score est msk X_masked y c) folds = map Inr sc"
      by (simp only: sequence_err_Inr)
    then have "length (map (fold_score est msk X_masked y c) folds) = length (map Inr sc :: (py_error + real) list)"
      by simp
    then have "length sc = length folds" by simp
    then show "length (snd cs) = card (set groups)"
      using cs folds by simp
  qed
qed

lemma print_class_accuracy_chance:
  assumes "print_class_accuracy d = Inr (rep, a)"
  shows "rep_chance rep = 1 / real (length (classes d))"
  using assms
  by (auto simp: print_class_accuracy_def bind_err_Inr_iff Let_def split: if_splits)

lemma select_data_Inr:
  assumes "select_data fmri_str behavioral conditions_arr = Inr (fmri_sel, cond_sel, run_sel)"
  shows "cond_sel = filter (\<lambda>l. l \<in> set conditions_arr) (map labels behavioral)"
    and "run_sel = map chunks (filter (\<lambda>r. labels r \<in> set conditions_arr) behavioral)"
proof -
  have m: "condition_mask behavioral conditions_arr
           = map (\<lambda>r. labels r \<in> set conditions_arr) behavioral"
    by (simp add: condition_mask_def isin_def)
  from assms have c: "cond_sel = series_mask (map labels behavioral) (condition_mask behavioral conditions_arr)"
    and r: "run_sel = series_mask (map chunks behavioral) (condition_mask behavioral conditions_arr)"
    by (auto simp: select_data_def Let_def split: sum.splits)
  show "cond_sel = filter (\<lambda>l. l \<in> set conditions_arr) (map labels behavioral)"
    unfolding c m by (simp add: series_mask_map filter_map comp_def)
  show "run_sel = map chunks (filter (\<lambda>r. labels r \<in> set conditions_arr) behavioral)"
    unfolding r m by (simp add: series_mask_map)
qed

lemma card_unique_filter:
  "length (np_unique (filter (\<lambda>x. x \<in> set categories) xs)) = card (set categories \<inter> set xs)"
proof -
  have "set (filter (\<lambda>x. x \<in> set categories) xs) = set categories \<inter> set xs" by auto
  then show ?thesis by (simp add: np_unique_props(4))
qed

lemma np_bool_index_none:
  assumes "set categories \<inter> set task_label_arg = {}"
  shows "np_bool_index xs (sel_mask task_label_arg categories) = Inr [] \<or>
         np_bool_index xs (sel_mask task_label_arg categories) = Inl IndexError"
proof -
  have "filter snd (zip xs (map (\<lambda>x. x \<in> set categories) task_label_arg)) = []"
    using assms by (auto simp: filter_empty_conv dest!: set_zip_rightD)
  then show ?thesis by (simp add: np_bool_index_def sel_mask_map)
qed

lemma assign_cell_apply:
  "assign_cell name r ns x =
     (if x = name \<and> \<not> isl r then Some (snd (projr r)) else ns x)"
  by (cases r) (auto simp: assign_cell_def split: prod.splits)

lemma sequence_err_read_name:
  "sequence_err (map (read_name ns) names) =
     (if \<forall>name\<in>set names. ns name \<noteq> None then Inr (map (\<lambda>name. the (ns name)) names)
      else Inl NameError)"
proof (induction names)
  case Nil
  show ?case by simp
next
  case (Cons a names)
  show ?case
  proof (cases "ns a")
    case None
    then show ?thesis by (simp add: read_name_def)
  next
    case (Some v)
    then show ?thesis using Cons by (simp add: read_name_def)
  qed
qed

lemma results_df_eq:
  "results_df ns =
     (if ns ''res_FvH_vtc'' \<noteq> None \<and> ns ''res_FvH_ffa'' \<noteq> None \<and> ns ''res_FvH_ppa'' \<noteq> None
         \<and> ns ''res_CvS_vtc'' \<noteq> None \<and> ns ''res_CvS_ffa'' \<noteq> None \<and> ns ''res_CvS_ppa'' \<noteq> None
      then Inr [(''Classification accuracy'',
                  map (\<lambda>name. Num (np_times100 (the (ns name))))
                    [''res_FvH_vtc'', ''res_FvH_ffa'', ''res_FvH_ppa'',
                     ''res_CvS_vtc'', ''res_CvS_ffa'', ''res_CvS_ppa'']),
                (''Classification categories'',
                  [Str ''Faces vs. Places'', Str ''Faces vs. Places'', Str ''Faces vs. Places'',
                   Str ''Cats vs. Shoes'', Str ''Cats vs. Shoes'', Str ''Cats vs. Shoes'']),
                (''Region of interest'',
                  [Str ''VTC'', Str ''FFA'', Str ''PPA'', Str ''VTC'', Str ''FFA'', Str ''PPA''])]
      else Inl NameError)"
  unfolding results_df_def sequence_err_read_name
  by (simp add: numeral_3_eq_3 del: One_nat_def)

lemma sweep_all_succeed:
  assumes "run_class_zmap est z_maps task_label_glm run_label_glm mask_vt [''face'', ''house'']
             = Inr (rep1, FvH_vtc)"
    and "run_class_zmap est z_maps task_label_glm run_label_glm mask_vt [''cat'', ''shoe'']
             = Inr (rep2, CvS_vtc)"
    and "run_class_zmap est z_maps task_label_glm run_label_glm mask_house [''face'', ''house'']
             = Inr (rep3, FvH_ppa)"
    and "cell_CvS_ppa = Inr (rep4, CvS_ppa)"
    and "run_class_zmap est z_maps task_label_glm run_label_glm mask_face [''face'', ''house'']
             = Inr (rep5, FvH_ffa)"
    and "cell_CvS_ffa = Inr (rep6, CvS_ffa)"
  shows "sweep est z_maps task_label_glm run_label_glm mask_vt mask_house mask_face
           cell_CvS_ppa cell_CvS_ffa
         = Inr [(''Classification accuracy'',
                  [Num (np_times100 FvH_vtc), Num (np_times100 FvH_ffa), Num (np_times100 FvH_ppa),
                   Num (np_times100 CvS_vtc), Num (np_times100 CvS_ffa), Num (np_times100 CvS_ppa)]),
                (''Classification categories'',
                  [Str ''Faces vs. Places'', Str ''Faces vs. Places'', Str ''Faces vs. Places'',
                   Str ''Cats vs. Shoes'', Str ''Cats vs. Shoes'', Str ''Cats vs. Shoes'']),
                (''Region of interest'',
                  [Str ''VTC'', Str ''FFA'', Str ''PPA'', Str ''VTC'', Str ''FFA'', Str ''PPA''])]"
  by (simp add: sweep_def sweep_cells_def results_df_eq assign_cell_apply assms)

lemma sweep_some_fails:
  assumes "isl (run_class_zmap est z_maps task_label_glm run_label_glm mask_vt [''face'', ''house''])
    \<or> isl (run_class_zmap est z_maps task_label_glm run_label_glm mask_vt [''cat'', ''shoe''])
    \<or> isl (run_class_zmap est z_maps task_label_glm run_label_glm mask_house [''face'', ''house''])
    \<or> isl cell_CvS_ppa
    \<or> isl (run_class_zmap est z_maps task_label_glm run_label_glm mask_face [''face'', ''house''])
    \<or> isl cell_CvS_ffa"
  shows "sweep est z_maps task_label_glm run_label_glm mask_vt mask_house mask_face
           cell_CvS_ppa cell_CvS_ffa = Inl NameError"
proof -
  show ?thesis
    using assms
    by (auto simp: sweep_def sweep_cells_def results_df_eq assign_cell_apply)
qed


lemma example_FvH:
  "run_class_zmap est_perfect example_z_maps example_task_label example_run_label ()
     [''face'', ''house'']
   = Inr (\<lparr>rep_classes = [''face'', ''house''], rep_accuracy = Finite 1, rep_chance = 1/2\<rparr>,
          Finite 1)"
  by (simp add: run_class_zmap_def sel_mask_def np_contains_def np_bool_index_def Decoder_fit_def
      LeaveOneGroupOut_split_def np_unique_def est_perfect_def print_class_accuracy_def np_mean_def
      example_z_maps_def example_task_label_def example_run_label_def)

lemma example_CvS:
  "run_class_zmap est_perfect example_z_maps example_task_label example_run_label ()
     [''cat'', ''shoe'']
   = Inr (\<lparr>rep_classes = [''cat'', ''shoe''], rep_accuracy = Finite 1, rep_chance = 1/2\<rparr>,
          Finite 1)"
  by (simp add: run_class_zmap_def sel_mask_def np_contains_def np_bool_index_def Decoder_fit_def
      LeaveOneGroupOut_split_def np_unique_def est_perfect_def print_class_accuracy_def np_mean_def
      example_z_maps_def example_task_label_def example_run_label_def)

lemma example_FvH_only:
  "run_class_zmap est_perfect [(), (), (), ()] [''face'', ''house'', ''face'', ''house'']
     [0, 0, 1, 1] () [''face'', ''house'']
   = Inr (\<lparr>rep_classes = [''face'', ''house''], rep_accuracy = Finite 1, rep_chance = 1/2\<rparr>,
          Finite 1)"
  by (simp add: run_class_zmap_def sel_mask_def np_contains_def np_bool_index_def Decoder_fit_def
      LeaveOneGroupOut_split_def np_unique_def est_perfect_def print_class_accuracy_def np_mean_def)

lemma example_CvS_absent:
  "isl (run_class_zmap est_perfect [(), (), (), ()] [''face'', ''house'', ''face'', ''house'']
     [0, 0, 1, 1] () [''cat'', ''shoe''])"
  by (simp add: run_class_zmap_def sel_mask_def np_contains_def np_bool_index_def Decoder_fit_def
      est_perfect_def)

lemma print_class_accuracy_unit_range:
  assumes ne: "cv_scores d \<noteq> []" and n: "0 < n" and cl: "classes d \<noteq> []"
    and len: "\<forall>cs\<in>set (cv_scores d). length (snd cs) = n"
    and unit: "\<forall>cs\<in>set (cv_scores d). \<forall>a\<in>set (snd cs). 0 \<le> a \<and> a \<le> 1"
  shows "\<exists>a. print_class_accuracy d
               = Inr (\<lparr>rep_classes = classes d, rep_accuracy = Finite a,
                        rep_chance = 1 / real (length (classes d))\<rparr>, Finite a)
             \<and> 0 \<le> a \<and> a \<le> 1"
proof -
  let ?rows = "map snd (cv_scores d)"
  let ?flat = "concat ?rows"
  have rect: "\<forall>r\<in>set ?rows. length r = n" using len by auto
  have ne': "?rows \<noteq> []" using ne by simp
  have "\<forall>x\<in>set ?flat. 0 \<le> x \<and> x \<le> 1" using unit by auto
  then have b: "0 \<le> sum_list ?flat \<and> sum_list ?flat \<le> real (length ?flat)"
    by (rule sum_list_unit_bounds)
  have pos: "0 < real (length ?flat)"
    using concat_rect_nonempty [OF rect ne' n] by simp
  have "0 \<le> sum_list ?flat / real (length ?flat) \<and> sum_list ?flat / real (length ?flat) \<le> 1"
    using b pos by (simp add: divide_le_eq_1)
  moreover have "print_class_accuracy d
      = Inr (\<lparr>rep_classes = classes d,
               rep_accuracy = Finite (sum_list ?flat / real (length ?flat)),
               rep_chance = 1 / real (length (classes d))\<rparr>,
             Finite (sum_list ?flat / real (length ?flat)))"
    using cl by (simp add: print_class_accuracy_def np_mean_rect [OF rect ne' n])
  ultimately show ?thesis by blast
qed

lemma run_class_zmap_no_fold:
  assumes "np_bool_index run_label_arg (sel_mask task_label_arg categories) = Inr run_sel"
    and "card (set run_sel) < 2"
  shows "\<exists>e. run_class_zmap est z_maps_arg task_label_arg run_label_arg msk categories = Inl e"
proof (cases "np_bool_index z_maps_arg (sel_mask task_label_arg categories)")
  case (Inl e)
  then show ?thesis by (simp add: run_class_zmap_def)
next
  case z: (Inr z_maps_sel)
  show ?thesis
  proof (cases "np_bool_index task_label_arg (sel_mask task_label_arg categories)")
    case (Inl e)
    then show ?thesis by (simp add: run_class_zmap_def z)
  next
    case t: (Inr task_sel)
    obtain e where "Decoder_fit est msk z_maps_sel task_sel run_sel = Inl e"
      using Decoder_fit_no_fold [OF assms(2), of est msk z_maps_sel task_sel] by auto
    then show ?thesis by (simp add: run_class_zmap_def z t assms(1))
  qed
qed

lemma svm_loro_cv_no_fold:
  assumes "select_data fmri_data behav_df conditions_arr = Inr (fmri_sel, cond_sel, run_sel)"
    and "card (set run_sel) < 2"
  shows "\<exists>e. svm_loro_cv est fmri_data behav_df msk conditions_arr = Inl e"
proof -
  obtain e where "Decoder_fit est msk fmri_sel cond_sel run_sel = Inl e"
    using Decoder_fit_no_fold [OF assms(2), of est msk fmri_sel cond_sel] by auto
  then show ?thesis by (simp add: svm_loro_cv_def assms(1))
qed

section \<open>Claims\<close>

text \<open>
  C1. For every label table and every set of wanted category labels, \<open>select_data\<close> on an
  image with one frame per row of the table returns exactly the frames whose label lies in
  the wanted set: the selected positions are those whose label is wanted, in ascending
  order; the returned labels are the labels of the table that lie in the wanted set, in
  original order; the returned run identifiers and frames are those at the same positions.
\<close>

theorem select_data_exact:
  assumes "length fmri_str = length behavioral"
  shows "select_data fmri_str behavioral conditions_arr
           = Inr (map ((!) fmri_str) (positions (condition_mask behavioral conditions_arr)),
                  map (\<lambda>i. labels (behavioral ! i))
                    (positions (condition_mask behavioral conditions_arr)),
                  map (\<lambda>i. chunks (behavioral ! i))
                    (positions (condition_mask behavioral conditions_arr)))
         \<and> positions (condition_mask behavioral conditions_arr)
           = filter (\<lambda>i. labels (behavioral ! i) \<in> set conditions_arr) [0..<length behavioral]
         \<and> map (\<lambda>i. labels (behavioral ! i)) (positions (condition_mask behavioral conditions_arr))
           = filter (\<lambda>l. l \<in> set conditions_arr) (map labels behavioral)"
proof -
  let ?p = "\<lambda>r. labels r \<in> set conditions_arr"
  let ?pos = "filter (\<lambda>i. ?p (behavioral ! i)) [0..<length behavioral]"
  have m: "condition_mask behavioral conditions_arr = map ?p behavioral"
    by (simp add: condition_mask_def isin_def)
  have pos: "positions (condition_mask behavioral conditions_arr) = ?pos"
    unfolding m by (rule positions_map)
  have sel: "series_mask (map f behavioral) (map ?p behavioral) = map (\<lambda>i. f (behavioral ! i)) ?pos"
    for f :: "trial \<Rightarrow> 'b"
  proof -
    have "map f (filter ?p behavioral) = map f (map ((!) behavioral) ?pos)"
      using filter_positions [of behavioral ?p] by simp
    then show ?thesis by (simp add: series_mask_map comp_def)
  qed
  have img: "index_img fmri_str (map ?p behavioral) = Inr (map ((!) fmri_str) ?pos)"
    using assms bool_index_positions [OF assms, of ?p]
    by (simp add: index_img_def np_bool_index_def)
  have lab: "map (\<lambda>i. labels (behavioral ! i)) ?pos
             = filter (\<lambda>l. l \<in> set conditions_arr) (map labels behavioral)"
    using sel [of labels] by (simp add: series_mask_map filter_map comp_def)
  show ?thesis
    unfolding pos using img sel [of labels] sel [of chunks] lab
    by (simp add: select_data_def m Let_def)
qed

theorem select_data_exact_witness:
  "select_data [10, 11, 12, 13 :: nat]
     [\<lparr>labels = ''rest'', chunks = 0\<rparr>, \<lparr>labels = ''face'', chunks = 0\<rparr>,
      \<lparr>labels = ''cat'', chunks = 1\<rparr>, \<lparr>labels = ''house'', chunks = 1\<rparr>]
     [''face'', ''house'']
   = Inr ([11, 13], [''face'', ''house''], [0, 1])"
proof -
  have "[0..<4] = [0, 1, 2, Suc 2]" by (simp add: upt_rec)
  then show ?thesis
    using select_data_exact [of "[10, 11, 12, 13 :: nat]"
      "[\<lparr>labels = ''rest'', chunks = 0\<rparr>, \<lparr>labels = ''face'', chunks = 0\<rparr>,
        \<lparr>labels = ''cat'', chunks = 1\<rparr>, \<lparr>labels = ''house'', chunks = 1\<rparr>]"
      "[''face'', ''house'']"]
    by simp
qed

text \<open>
  C9. For every label sequence and every category set, the mask that \<open>run_class_zmap\<close>
  computes with the list comprehension \<^verbatim>\<open>[x in categories for x in task_label_arg]\<close>
  is the mask that \<open>select_data\<close> computes with \<open>isin\<close> on the same labels and categories,
  so both select the same positions.
\<close>

theorem sel_mask_eq_condition_mask:
  "sel_mask task_label_arg categories = isin task_label_arg categories
   \<and> positions (sel_mask task_label_arg categories)
     = positions (isin task_label_arg categories)
   \<and> sel_mask (map labels behavioral) categories = condition_mask behavioral categories"
proof -
  have "np_contains categories = (\<lambda>x. x \<in> set categories)"
    by (rule ext) (rule np_contains_iff)
  then have "sel_mask xs categories = isin xs categories" for xs :: "string list"
    by (simp add: sel_mask_def isin_def)
  then show ?thesis by (simp add: condition_mask_def)
qed

theorem sel_mask_eq_condition_mask_witness:
  "sel_mask [''face'', ''cat'', ''house''] [''house'', ''face''] = [True, False, True]
   \<and> isin [''face'', ''cat'', ''house''] [''house'', ''face''] = [True, False, True]"
  using sel_mask_eq_condition_mask [of "[''face'', ''cat'', ''house'']" "[''house'', ''face'']" "[]"]
  by (simp add: isin_def)



text \<open>
  C2 (as amended). For every run-identifier sequence with at least two distinct values, the
  leave-one-group-out splitter used by \<open>svm_loro_cv\<close> and \<open>run_class_zmap\<close> produces exactly
  one fold per distinct run identifier, in ascending order of the identifier; the test subset
  of a fold is exactly the observations with that run value and the train subset is all
  others, so no run identifier occurs on both sides of a fold; the test subsets of all folds
  do not overlap and together are the whole selected subset.
\<close>

theorem LeaveOneGroupOut_partition:
  assumes "2 \<le> card (set groups)"
  shows "\<exists>folds. LeaveOneGroupOut_split groups = Inr folds
     \<and> length folds = card (set groups)
     \<and> distinct (np_unique groups) \<and> sorted (np_unique groups)
     \<and> set (np_unique groups) = set groups
     \<and> (\<forall>k<length folds.
           snd (folds ! k) = filter (\<lambda>i. groups ! i = np_unique groups ! k) [0..<length groups]
         \<and> fst (folds ! k) = filter (\<lambda>i. groups ! i \<noteq> np_unique groups ! k) [0..<length groups]
         \<and> set (map ((!) groups) (fst (folds ! k)))
             \<inter> set (map ((!) groups) (snd (folds ! k))) = {})
     \<and> distinct (concat (map snd folds))
     \<and> set (concat (map snd folds)) = {0..<length groups}"
proof -
  let ?F = "\<lambda>g. (filter (\<lambda>i. groups ! i \<noteq> g) [0..<length groups],
                 filter (\<lambda>i. groups ! i = g) [0..<length groups])"
  let ?folds = "map ?F (np_unique groups)"
  have split: "LeaveOneGroupOut_split groups = Inr ?folds"
    using assms by (simp add: LeaveOneGroupOut_split_eq)
  have len: "length ?folds = card (set groups)"
    by (simp add: np_unique_props(4))
  have tests: "map snd ?folds
      = map (\<lambda>g. filter (\<lambda>i. groups ! i = g) [0..<length groups]) (np_unique groups)"
    by simp
  have dis: "distinct (concat (map snd ?folds))"
    unfolding tests by (rule distinct_concat_tests) (simp_all add: np_unique_props(2))
  have cover: "set (concat (map snd ?folds)) = {0..<length groups}"
    unfolding tests set_concat_tests by (auto simp: np_unique_props(1))
  have each: "\<forall>k<length ?folds.
           snd (?folds ! k) = filter (\<lambda>i. groups ! i = np_unique groups ! k) [0..<length groups]
         \<and> fst (?folds ! k) = filter (\<lambda>i. groups ! i \<noteq> np_unique groups ! k) [0..<length groups]
         \<and> set (map ((!) groups) (fst (?folds ! k)))
             \<inter> set (map ((!) groups) (snd (?folds ! k))) = {}"
    by auto
  show ?thesis
    using split len dis cover each np_unique_props(1,2,3) [of groups] by blast
qed

theorem LeaveOneGroupOut_partition_witness:
  "\<exists>folds. LeaveOneGroupOut_split [0, 0, 1, 1, 2] = Inr folds
     \<and> length folds = 3
     \<and> distinct (concat (map snd folds))
     \<and> set (concat (map snd folds)) = {0..<5}"
proof -
  have c: "card (set [0, 0, 1, 1, 2 :: int]) = 3" by simp
  then have h: "2 \<le> card (set [0, 0, 1, 1, 2 :: int])" by simp
  show ?thesis
    using LeaveOneGroupOut_partition [OF h] c by auto
qed

text \<open>
  C2 as stated fails where fewer than two distinct run identifiers are present: the splitter
  raises ValueError and produces no fold, where the claim asks for one fold for the one run.
\<close>

theorem LeaveOneGroupOut_single_run_counterexample:
  "LeaveOneGroupOut_split [3, 3] = Inl ValueError \<and> card (set [3, 3 :: int]) = 1"
  by (simp add: LeaveOneGroupOut_split_def np_unique_def)

text \<open>
  C3. For every fit decoder with at least one class and at least one fold (every class has
  one score per fold), the accuracy that \<open>print_class_accuracy\<close> prints and returns, the
  mean of the score lists of \<open>cv_scores_\<close> pooled over the classes, is the arithmetic mean of
  the per-fold accuracies; where every class holds the same list of fold scores (the
  two-class decoders of the notebook), it is the mean of that list.
\<close>

theorem print_class_accuracy_mean:
  assumes "cv_scores d \<noteq> []" "\<forall>cs\<in>set (cv_scores d). length (snd cs) = n" "0 < n"
          "classes d \<noteq> []"
  shows "print_class_accuracy d
           = Inr (\<lparr>rep_classes = classes d,
                    rep_accuracy = Finite (mean (map (fold_accuracy d) [0..<n])),
                    rep_chance = 1 / real (length (classes d))\<rparr>,
                  Finite (mean (map (fold_accuracy d) [0..<n])))
         \<and> ((\<forall>cs\<in>set (cv_scores d). snd cs = scores)
              \<longrightarrow> mean (map (fold_accuracy d) [0..<n]) = mean scores)"
proof -
  let ?rows = "map snd (cv_scores d)"
  have rect: "\<forall>r\<in>set ?rows. length r = n" using assms(2) by auto
  have ne: "?rows \<noteq> []" using assms(1) by simp
  have fa: "fold_accuracy d = (\<lambda>j. mean (map (\<lambda>r. r ! j) ?rows))"
    by (rule ext) (simp add: fold_accuracy_def comp_def case_prod_unfold)
  have m: "np_mean ?rows = Inr (Finite (mean (map (fold_accuracy d) [0..<n])))"
    unfolding fa
    using np_mean_rect [OF rect ne assms(3)] pooled_mean_eq_mean_of_folds [OF rect ne assms(3)]
    by simp
  have first: "print_class_accuracy d
           = Inr (\<lparr>rep_classes = classes d,
                    rep_accuracy = Finite (mean (map (fold_accuracy d) [0..<n])),
                    rep_chance = 1 / real (length (classes d))\<rparr>,
                  Finite (mean (map (fold_accuracy d) [0..<n])))"
    using assms(4) by (simp add: print_class_accuracy_def m bind_err_def)
  have second: "mean (map (fold_accuracy d) [0..<n]) = mean scores"
    if eq: "\<forall>cs\<in>set (cv_scores d). snd cs = scores"
  proof -
    have len: "length scores = n" using eq assms(1,2) by (cases "cv_scores d") auto
    have "mean (map (\<lambda>r. r ! j) ?rows) = scores ! j" for j
    proof -
      have "map (\<lambda>r. r ! j) ?rows = replicate (length ?rows) (scores ! j)"
        using eq by (auto simp: map_replicate_const [symmetric] intro!: map_cong)
      then show ?thesis using ne by (simp add: mean_def sum_list_replicate)
    qed
    then have "map (fold_accuracy d) [0..<n] = scores"
      unfolding fa using len map_nth [of scores] by simp
    then show ?thesis by simp
  qed
  show ?thesis using first second by blast
qed

theorem print_class_accuracy_mean_witness:
  "print_class_accuracy
     \<lparr>classes = [''face'', ''house''],
      cv_scores = [(''face'', [1, 1/2]), (''house'', [1, 1/2])]\<rparr>
   = Inr (\<lparr>rep_classes = [''face'', ''house''], rep_accuracy = Finite (3/4), rep_chance = 1/2\<rparr>,
          Finite (3/4))"
  using print_class_accuracy_mean
    [of "\<lparr>classes = [''face'', ''house''],
          cv_scores = [(''face'', [1, 1/2]), (''house'', [1, 1/2])]\<rparr>" 2 "[1, 1/2]"]
  by (simp add: mean_def)

text \<open>
  C7 (as amended). Whenever at least one fold contributes a score (every class has one
  score in \<open>[0, 1]\<close> per fold), the accuracy that \<open>print_class_accuracy\<close> prints and returns
  lies in \<open>[0, 1]\<close>. Every decoder that the fit returns is of that kind: it has at least
  two folds and every class has one score per fold. Where no fold can be formed, because the
  selected observations lie in fewer than two runs (in particular when the selection is
  empty), the fit raises and the evaluation reports no accuracy, neither an undefined one
  nor 0.
\<close>

theorem aggregate_accuracy_range_or_raise:
  "(cv_scores d \<noteq> [] \<and> 0 < n \<and> classes d \<noteq> []
      \<and> (\<forall>cs\<in>set (cv_scores d). length (snd cs) = n \<and> (\<forall>a\<in>set (snd cs). 0 \<le> a \<and> a \<le> 1))
     \<longrightarrow> (\<exists>a. print_class_accuracy d
               = Inr (\<lparr>rep_classes = classes d, rep_accuracy = Finite a,
                        rep_chance = 1 / real (length (classes d))\<rparr>, Finite a)
             \<and> 0 \<le> a \<and> a \<le> 1))
   \<and> (Decoder_fit est msk X y groups = Inr fit
     \<longrightarrow> 2 \<le> card (set groups) \<and> classes fit \<noteq> [] \<and> cv_scores fit \<noteq> []
       \<and> (\<forall>cs\<in>set (cv_scores fit). length (snd cs) = card (set groups))
       \<and> ((\<forall>cs\<in>set (cv_scores fit). \<forall>a\<in>set (snd cs). 0 \<le> a \<and> a \<le> 1)
           \<longrightarrow> (\<exists>a. print_class_accuracy fit
                     = Inr (\<lparr>rep_classes = classes fit, rep_accuracy = Finite a,
                              rep_chance = 1 / real (length (classes fit))\<rparr>, Finite a)
                   \<and> 0 \<le> a \<and> a \<le> 1)))
   \<and> (card (set groups0) < 2 \<longrightarrow> (\<exists>e. Decoder_fit est msk X0 y0 groups0 = Inl e))
   \<and> (np_bool_index run_label_arg (sel_mask task_label_arg categories) = Inr run_sel
       \<and> card (set run_sel) < 2
     \<longrightarrow> (\<exists>e. run_class_zmap est z_maps_arg task_label_arg run_label_arg msk categories
              = Inl e))
   \<and> (select_data fmri_data behav_df conditions_arr = Inr (fmri_sel, cond_sel, chunk_sel)
       \<and> card (set chunk_sel) < 2
     \<longrightarrow> (\<exists>e. svm_loro_cv est fmri_data behav_df msk conditions_arr = Inl e))"
proof -
  have range: "\<exists>a. print_class_accuracy d
               = Inr (\<lparr>rep_classes = classes d, rep_accuracy = Finite a,
                        rep_chance = 1 / real (length (classes d))\<rparr>, Finite a)
             \<and> 0 \<le> a \<and> a \<le> 1"
    if "cv_scores d \<noteq> [] \<and> 0 < n \<and> classes d \<noteq> []
      \<and> (\<forall>cs\<in>set (cv_scores d). length (snd cs) = n \<and> (\<forall>a\<in>set (snd cs). 0 \<le> a \<and> a \<le> 1))"
    using that by (intro print_class_accuracy_unit_range [of d n]) auto
  have fitted: "2 \<le> card (set groups) \<and> classes fit \<noteq> [] \<and> cv_scores fit \<noteq> []
       \<and> (\<forall>cs\<in>set (cv_scores fit). length (snd cs) = card (set groups))
       \<and> ((\<forall>cs\<in>set (cv_scores fit). \<forall>a\<in>set (snd cs). 0 \<le> a \<and> a \<le> 1)
           \<longrightarrow> (\<exists>a. print_class_accuracy fit
                     = Inr (\<lparr>rep_classes = classes fit, rep_accuracy = Finite a,
                              rep_chance = 1 / real (length (classes fit))\<rparr>, Finite a)
                   \<and> 0 \<le> a \<and> a \<le> 1))"
    if f: "Decoder_fit est msk X y groups = Inr fit"
  proof -
    note s = Decoder_fit_scores [OF f]
    have "0 < card (set groups)" using s(1) by simp
    from print_class_accuracy_unit_range [OF s(3) this s(2) s(4)] s show ?thesis by blast
  qed
  show ?thesis
    using range fitted Decoder_fit_no_fold [of groups0 est msk X0 y0]
      run_class_zmap_no_fold [of run_label_arg task_label_arg categories run_sel est z_maps_arg msk]
      svm_loro_cv_no_fold [of fmri_data behav_df conditions_arr fmri_sel cond_sel chunk_sel est msk]
    by blast
qed

theorem aggregate_accuracy_range_or_raise_witness:
  "(\<exists>a. print_class_accuracy
          \<lparr>classes = [''cat'', ''shoe''],
           cv_scores = [(''cat'', [1, 0, 1/2]), (''shoe'', [1, 0, 1/2])]\<rparr>
        = Inr (\<lparr>rep_classes = [''cat'', ''shoe''], rep_accuracy = Finite a, rep_chance = 1/2\<rparr>,
               Finite a)
        \<and> 0 \<le> a \<and> a \<le> 1)
   \<and> Decoder_fit est_perfect () [(), (), (), ()] [''face'', ''house'', ''face'', ''house'']
       [0, 0, 1, 1]
     = Inr \<lparr>classes = [''face'', ''house''],
            cv_scores = [(''face'', [1, 1]), (''house'', [1, 1])]\<rparr>
   \<and> (\<exists>a. print_class_accuracy
          \<lparr>classes = [''face'', ''house''],
           cv_scores = [(''face'', [1, 1]), (''house'', [1, 1])]\<rparr>
        = Inr (\<lparr>rep_classes = [''face'', ''house''], rep_accuracy = Finite a, rep_chance = 1/2\<rparr>,
               Finite a)
        \<and> 0 \<le> a \<and> a \<le> 1)
   \<and> (\<exists>e. Decoder_fit est_perfect () [(), ()] [''face'', ''house''] [0, 0] = Inl e)
   \<and> (\<exists>e. run_class_zmap est_perfect [(), ()] [''face'', ''house''] [0, 0] ()
          [''face'', ''house''] = Inl e)
   \<and> (\<exists>e. svm_loro_cv est_perfect [(), ()]
          [\<lparr>labels = ''face'', chunks = 0\<rparr>, \<lparr>labels = ''house'', chunks = 0\<rparr>] ()
          [''face'', ''house''] = Inl e)"
proof -
  let ?d = "\<lparr>classes = [''cat'', ''shoe''],
           cv_scores = [(''cat'', [1, 0, 1/2]), (''shoe'', [1, 0, 1/2 :: real])]\<rparr>"
  let ?fit = "\<lparr>classes = [''face'', ''house''],
           cv_scores = [(''face'', [1, 1]), (''house'', [1, 1 :: real])]\<rparr>"
  let ?rows = "[\<lparr>labels = ''face'', chunks = 0\<rparr>, \<lparr>labels = ''house'', chunks = 0\<rparr>]"
  have f: "Decoder_fit est_perfect () [(), (), (), ()] [''face'', ''house'', ''face'', ''house'']
       [0, 0, 1, 1] = Inr ?fit"
    by (simp add: Decoder_fit_def LeaveOneGroupOut_split_def np_unique_def est_perfect_def)
  have r: "np_bool_index [0, 0 :: int] (sel_mask [''face'', ''house''] [''face'', ''house''])
           = Inr [0, 0]"
    by (simp add: np_bool_index_def sel_mask_def np_contains_def)
  have s: "select_data [(), ()] ?rows [''face'', ''house''] = Inr ([(), ()], [''face'', ''house''], [0, 0])"
    by (simp add: select_data_def condition_mask_def isin_def series_mask_def index_img_def)
  have c: "card (set [0, 0 :: int]) < 2" by simp
  show ?thesis
    using f r s c
      aggregate_accuracy_range_or_raise [where d = ?d and n = 3 and est = est_perfect
        and msk = "()" and X = "[(), (), (), ()]" and y = "[''face'', ''house'', ''face'', ''house'']"
        and groups = "[0, 0, 1, 1]" and fit = ?fit
        and ?X0.0 = "[(), ()]" and ?y0.0 = "[''face'', ''house'']" and ?groups0.0 = "[0, 0]"
        and run_label_arg = "[0, 0]" and task_label_arg = "[''face'', ''house'']"
        and categories = "[''face'', ''house'']" and run_sel = "[0, 0]"
        and z_maps_arg = "[(), ()]" and fmri_data = "[(), ()]" and behav_df = ?rows
        and conditions_arr = "[''face'', ''house'']" and fmri_sel = "[(), ()]"
        and cond_sel = "[''face'', ''house'']" and chunk_sel = "[0, 0]"]
    by simp
qed

text \<open>
  C7 as stated fails in its second half: where no fold contributes (here both selected
  observations lie in one run) the evaluation raises in the fit, so no accuracy is reported
  or flagged as undefined.
\<close>

theorem no_fold_raises_counterexample:
  "isl (run_class_zmap est_perfect [(), ()] [''face'', ''house''] [0, 0] () [''face'', ''house''])
   \<and> isl (svm_loro_cv est_perfect [(), ()]
          [\<lparr>labels = ''face'', chunks = 0\<rparr>, \<lparr>labels = ''house'', chunks = 0\<rparr>] ()
          [''face'', ''house''])"
  by (simp add: run_class_zmap_def sel_mask_def np_contains_def np_bool_index_def
      svm_loro_cv_def select_data_def condition_mask_def isin_def series_mask_def index_img_def
      Decoder_fit_def LeaveOneGroupOut_split_def np_unique_def est_perfect_def)

text \<open>
  C4 (as amended). For every evaluation that succeeds, the chance level that
  \<open>print_class_accuracy\<close> reports is \<open>1/k\<close>, where \<open>k\<close> is the number of distinct categories
  passed to the evaluation that occur among the labels (the decoder's \<open>classes_\<close>); it is
  one over the number of distinct categories passed whenever each of them occurs in the label
  table (0.5 for face against house).
\<close>

theorem chance_level_reported:
  "(run_class_zmap est z_maps_arg task_label_arg run_label_arg msk categories = Inr (rep, avg_acc)
      \<longrightarrow> rep_chance rep = 1 / real (card (set categories \<inter> set task_label_arg))
        \<and> (set categories \<subseteq> set task_label_arg
             \<longrightarrow> rep_chance rep = 1 / real (card (set categories))))
   \<and> (svm_loro_cv est fmri_data behav_df msk categories = Inr (rep', d)
      \<longrightarrow> rep_chance rep' = 1 / real (card (set categories \<inter> set (map labels behav_df)))
        \<and> (set categories \<subseteq> set (map labels behav_df)
             \<longrightarrow> rep_chance rep' = 1 / real (card (set categories))))"
proof -
  have zmap: "rep_chance rep = 1 / real (card (set categories \<inter> set task_label_arg))"
    if "run_class_zmap est z_maps_arg task_label_arg run_label_arg msk categories = Inr (rep, avg_acc)"
  proof -
    from that obtain z_maps_sel run_sel dec where
      fit: "Decoder_fit est msk z_maps_sel (filter (\<lambda>x. x \<in> set categories) task_label_arg) run_sel
              = Inr dec"
      and pr: "print_class_accuracy dec = Inr (rep, avg_acc)"
      by (auto simp: run_class_zmap_def Let_def bind_err_Inr_iff sel_mask_map np_bool_index_self)
    show ?thesis
      using print_class_accuracy_chance [OF pr] Decoder_fit_classes [OF fit]
      by (simp add: card_unique_filter)
  qed
  have loro: "rep_chance rep' = 1 / real (card (set categories \<inter> set (map labels behav_df)))"
    if "svm_loro_cv est fmri_data behav_df msk categories = Inr (rep', d)"
  proof -
    from that obtain fmri_sel cond_sel run_sel avg where
      sel: "select_data fmri_data behav_df categories = Inr (fmri_sel, cond_sel, run_sel)"
      and fit: "Decoder_fit est msk fmri_sel cond_sel run_sel = Inr d"
      and pr: "print_class_accuracy d = Inr (rep', avg)"
      by (auto simp: svm_loro_cv_def bind_err_Inr_iff)
    show ?thesis
      using print_class_accuracy_chance [OF pr] Decoder_fit_classes [OF fit] select_data_Inr(1) [OF sel]
      by (simp add: card_unique_filter)
  qed
  have sub: "A \<subseteq> B \<Longrightarrow> A \<inter> B = A" for A B :: "string set" by auto
  show ?thesis using zmap loro by (auto simp: sub)
qed

theorem chance_level_reported_witness:
  "run_class_zmap est_perfect [(), (), (), ()] [''face'', ''house'', ''face'', ''house'']
       [0, 0, 1, 1] () [''face'', ''house'']
     = Inr (\<lparr>rep_classes = [''face'', ''house''], rep_accuracy = Finite 1, rep_chance = 1/2\<rparr>,
            Finite 1)
   \<and> svm_loro_cv est_perfect [(), (), (), ()]
       [\<lparr>labels = ''face'', chunks = 0\<rparr>, \<lparr>labels = ''house'', chunks = 0\<rparr>,
        \<lparr>labels = ''face'', chunks = 1\<rparr>, \<lparr>labels = ''house'', chunks = 1\<rparr>] () [''face'', ''house'']
     = Inr (\<lparr>rep_classes = [''face'', ''house''], rep_accuracy = Finite 1, rep_chance = 1/2\<rparr>,
            \<lparr>classes = [''face'', ''house''],
             cv_scores = [(''face'', [1, 1]), (''house'', [1, 1])]\<rparr>)
   \<and> (1/2 :: real) = 1 / real (card (set [''face'', ''house'']))"
proof -
  let ?rep = "\<lparr>rep_classes = [''face'', ''house''], rep_accuracy = Finite 1, rep_chance = 1/2\<rparr>"
  let ?d = "\<lparr>classes = [''face'', ''house''], cv_scores = [(''face'', [1, 1]), (''house'', [1, 1])]\<rparr>"
  let ?rows = "[\<lparr>labels = ''face'', chunks = 0\<rparr>, \<lparr>labels = ''house'', chunks = 0\<rparr>,
        \<lparr>labels = ''face'', chunks = 1\<rparr>, \<lparr>labels = ''house'', chunks = 1\<rparr>]"
  have z: "run_class_zmap est_perfect [(), (), (), ()] [''face'', ''house'', ''face'', ''house'']
       [0, 0, 1, 1] () [''face'', ''house''] = Inr (?rep, Finite 1)"
    by (simp add: run_class_zmap_def sel_mask_def np_contains_def np_bool_index_def Decoder_fit_def
        LeaveOneGroupOut_split_def np_unique_def est_perfect_def print_class_accuracy_def
        np_mean_def)
  have l: "svm_loro_cv est_perfect [(), (), (), ()] ?rows () [''face'', ''house''] = Inr (?rep, ?d)"
    by (simp add: svm_loro_cv_def select_data_def condition_mask_def isin_def series_mask_def
        index_img_def np_bool_index_def Decoder_fit_def LeaveOneGroupOut_split_def np_unique_def
        est_perfect_def print_class_accuracy_def np_mean_def)
  show ?thesis
    using z l
      chance_level_reported [of est_perfect "[(), (), (), ()]"
        "[''face'', ''house'', ''face'', ''house'']" "[0, 0, 1, 1]" "()" "[''face'', ''house'']"
        ?rep "Finite 1" "[(), (), (), ()]" ?rows ?rep ?d]
    by simp
qed

text \<open>
  C4 as stated fails when a category passed to the evaluation does not occur among the
  labels: with face, house and an absent third category passed, the decoder sees two classes
  and the reported chance level is 1/2, not 1/3.
\<close>

theorem chance_level_absent_category_counterexample:
  "run_class_zmap est_perfect [(), (), (), ()] [''face'', ''house'', ''face'', ''house'']
       [0, 0, 1, 1] () [''face'', ''house'', ''unicorn'']
     = Inr (\<lparr>rep_classes = [''face'', ''house''], rep_accuracy = Finite 1, rep_chance = 1/2\<rparr>,
            Finite 1)
   \<and> card (set [''face'', ''house'', ''unicorn'']) = 3"
  by (simp add: run_class_zmap_def sel_mask_def np_contains_def np_bool_index_def Decoder_fit_def
      LeaveOneGroupOut_split_def np_unique_def est_perfect_def print_class_accuracy_def np_mean_def)

text \<open>
  C5 (as amended). For every wanted category set, \<open>select_data\<close> on an image with one frame
  per row returns, without error, a selection that is empty exactly when no wanted category
  occurs in the label table. When no wanted category occurs in the table, the evaluation
  (\<open>svm_loro_cv\<close>, and likewise \<open>run_class_zmap\<close>) raises: it reports no nan accuracy and
  marks nothing.
\<close>

theorem empty_selection_raises:
  "(length fmri_str = length behavioral
      \<longrightarrow> (\<exists>fmri_sel cond_sel run_sel.
            select_data fmri_str behavioral conditions_arr = Inr (fmri_sel, cond_sel, run_sel)
          \<and> length fmri_sel = length cond_sel \<and> length run_sel = length cond_sel
          \<and> (cond_sel = [] \<longleftrightarrow> set conditions_arr \<inter> set (map labels behavioral) = {})))
   \<and> (set conditions_arr \<inter> set (map labels behavioral) = {}
      \<longrightarrow> (\<exists>e. svm_loro_cv est fmri_str behavioral msk conditions_arr = Inl e))
   \<and> (set categories \<inter> set task_label_arg = {}
      \<longrightarrow> (\<exists>e. run_class_zmap est z_maps_arg task_label_arg run_label_arg msk categories = Inl e))"
proof -
  have one: "\<exists>fmri_sel cond_sel run_sel.
            select_data fmri_str behavioral conditions_arr = Inr (fmri_sel, cond_sel, run_sel)
          \<and> length fmri_sel = length cond_sel \<and> length run_sel = length cond_sel
          \<and> (cond_sel = [] \<longleftrightarrow> set conditions_arr \<inter> set (map labels behavioral) = {})"
    if len: "length fmri_str = length behavioral"
  proof -
    let ?p = "\<lambda>r. labels r \<in> set conditions_arr"
    have m: "condition_mask behavioral conditions_arr = map ?p behavioral"
      by (simp add: condition_mask_def isin_def)
    obtain fmri_sel where img: "index_img fmri_str (map ?p behavioral) = Inr fmri_sel"
      and fl: "length fmri_sel = length (filter ?p behavioral)"
    proof
      show "index_img fmri_str (map ?p behavioral)
            = Inr (map fst (filter snd (zip fmri_str (map ?p behavioral))))"
        using len by (simp add: index_img_def np_bool_index_def)
      have "length (filter snd (zip xs (map ?p ys))) = length (filter ?p ys)"
        if "length xs = length ys" for xs :: "'a list" and ys
        using that by (induction xs ys rule: list_induct2) auto
      from this [OF len] show "length (map fst (filter snd (zip fmri_str (map ?p behavioral))))
            = length (filter ?p behavioral)" by simp
    qed
    have "select_data fmri_str behavioral conditions_arr
          = Inr (fmri_sel, map labels (filter ?p behavioral), map chunks (filter ?p behavioral))"
      by (simp add: select_data_def Let_def m img series_mask_map)
    moreover have "map labels (filter ?p behavioral) = [] \<longleftrightarrow>
                   set conditions_arr \<inter> set (map labels behavioral) = {}"
      by (auto simp: filter_empty_conv)
    ultimately show ?thesis using fl by simp
  qed
  have two: "\<exists>e. svm_loro_cv est fmri_str behavioral msk conditions_arr = Inl e"
    if none: "set conditions_arr \<inter> set (map labels behavioral) = {}"
  proof (cases "select_data fmri_str behavioral conditions_arr")
    case (Inl e)
    then show ?thesis by (simp add: svm_loro_cv_def)
  next
    case (Inr t)
    obtain fmri_sel cond_sel run_sel where t: "t = (fmri_sel, cond_sel, run_sel)"
      by (cases t) auto
    have "filter (\<lambda>r. labels r \<in> set conditions_arr) behavioral = []"
      using none by (auto simp: filter_empty_conv)
    then have "run_sel = []"
      using select_data_Inr(2) [OF Inr [unfolded t]] by simp
    moreover obtain e where "Decoder_fit est msk fmri_sel cond_sel [] = Inl e"
      using Decoder_fit_no_fold [of "[]" est msk fmri_sel cond_sel] by auto
    ultimately show ?thesis
      by (simp add: svm_loro_cv_def Inr t)
  qed
  have three: "\<exists>e. run_class_zmap est z_maps_arg task_label_arg run_label_arg msk categories = Inl e"
    if none: "set categories \<inter> set task_label_arg = {}"
  proof -
    note idx = np_bool_index_none [OF none]
    obtain e where fit: "Decoder_fit est msk [] [] [] = Inl e"
      using Decoder_fit_no_fold [of "[]" est msk "[]" "[]"] by auto
    show ?thesis
      using idx [of z_maps_arg] idx [of task_label_arg] idx [of run_label_arg]
      by (auto simp: run_class_zmap_def Let_def fit)
  qed
  show ?thesis using one two three by blast
qed

theorem empty_selection_raises_witness:
  "select_data [(), ()] [\<lparr>labels = ''face'', chunks = 0\<rparr>, \<lparr>labels = ''house'', chunks = 1\<rparr>]
       [''unicorn'']
     = Inr ([], [], [])
   \<and> (\<exists>e. svm_loro_cv est_perfect [(), ()]
          [\<lparr>labels = ''face'', chunks = 0\<rparr>, \<lparr>labels = ''house'', chunks = 1\<rparr>] () [''unicorn'']
        = Inl e)
   \<and> (\<exists>e. run_class_zmap est_perfect [(), ()] [''face'', ''house''] [0, 1] () [''unicorn'']
        = Inl e)"
proof -
  let ?rows = "[\<lparr>labels = ''face'', chunks = 0\<rparr>, \<lparr>labels = ''house'', chunks = 1\<rparr>]"
  have "length [(), ()] = length ?rows" by simp
  moreover have "set [''unicorn''] \<inter> set (map labels ?rows) = {}" by simp
  moreover have "set [''unicorn''] \<inter> set [''face'', ''house''] = {}" by simp
  moreover note empty_selection_raises [of "[(), ()]" ?rows "[''unicorn'']" est_perfect "()"
      "[''unicorn'']" "[''face'', ''house'']" "[(), ()]" "[0, 1]"]
  ultimately show ?thesis by auto
qed

text \<open>
  C5 as stated fails for a wanted set with one absent and one present category: the
  selection is not empty, it holds the frames of the present category.
\<close>

theorem partial_selection_counterexample:
  "select_data [10, 11 :: nat]
     [\<lparr>labels = ''face'', chunks = 0\<rparr>, \<lparr>labels = ''house'', chunks = 0\<rparr>]
     [''face'', ''unicorn'']
   = Inr ([10], [''face''], [0])"
  by (simp add: select_data_def condition_mask_def isin_def series_mask_def index_img_def
      np_bool_index_def)

text \<open>
  C6 (as amended). In the sweep over regions and category pairs a failure is not caught:
  whenever one of the six combinations raises, the cell that builds the results table raises
  NameError and no table is produced, partial or otherwise; the table is produced exactly
  when all six combinations succeed.
\<close>

theorem sweep_failure_aborts:
  "(isl (run_class_zmap est z_maps task_label_glm run_label_glm mask_vt [''face'', ''house''])
    \<or> isl (run_class_zmap est z_maps task_label_glm run_label_glm mask_vt [''cat'', ''shoe''])
    \<or> isl (run_class_zmap est z_maps task_label_glm run_label_glm mask_house [''face'', ''house''])
    \<or> isl cell_CvS_ppa
    \<or> isl (run_class_zmap est z_maps task_label_glm run_label_glm mask_face [''face'', ''house''])
    \<or> isl cell_CvS_ffa
    \<longrightarrow> sweep est z_maps task_label_glm run_label_glm mask_vt mask_house mask_face
           cell_CvS_ppa cell_CvS_ffa = Inl NameError)
   \<and> ((\<exists>df. sweep est z_maps task_label_glm run_label_glm mask_vt mask_house mask_face
               cell_CvS_ppa cell_CvS_ffa = Inr df)
      \<longleftrightarrow> \<not> isl (run_class_zmap est z_maps task_label_glm run_label_glm mask_vt [''face'', ''house''])
        \<and> \<not> isl (run_class_zmap est z_maps task_label_glm run_label_glm mask_vt [''cat'', ''shoe''])
        \<and> \<not> isl (run_class_zmap est z_maps task_label_glm run_label_glm mask_house [''face'', ''house''])
        \<and> \<not> isl cell_CvS_ppa
        \<and> \<not> isl (run_class_zmap est z_maps task_label_glm run_label_glm mask_face [''face'', ''house''])
        \<and> \<not> isl cell_CvS_ffa)"
proof -
  let ?c1 = "run_class_zmap est z_maps task_label_glm run_label_glm mask_vt [''face'', ''house'']"
  let ?c2 = "run_class_zmap est z_maps task_label_glm run_label_glm mask_vt [''cat'', ''shoe'']"
  let ?c3 = "run_class_zmap est z_maps task_label_glm run_label_glm mask_house [''face'', ''house'']"
  let ?c5 = "run_class_zmap est z_maps task_label_glm run_label_glm mask_face [''face'', ''house'']"
  let ?sweep = "sweep est z_maps task_label_glm run_label_glm mask_vt mask_house mask_face
           cell_CvS_ppa cell_CvS_ffa"
  have fail: "?sweep = Inl NameError"
    if "isl ?c1 \<or> isl ?c2 \<or> isl ?c3 \<or> isl cell_CvS_ppa \<or> isl ?c5 \<or> isl cell_CvS_ffa"
    using that by (rule sweep_some_fails)
  have ok: "\<exists>df. ?sweep = Inr df"
    if "\<not> isl ?c1 \<and> \<not> isl ?c2 \<and> \<not> isl ?c3 \<and> \<not> isl cell_CvS_ppa \<and> \<not> isl ?c5
        \<and> \<not> isl cell_CvS_ffa"
  proof -
    have inr: "\<not> isl r \<Longrightarrow> \<exists>rep v. r = Inr (rep, v)" for r :: "py_error + (report \<times> np_float)"
      by (cases r) auto
    from that obtain r1 v1 r2 v2 r3 v3 r4 v4 r5 v5 r6 v6 where
      "?c1 = Inr (r1, v1)" "?c2 = Inr (r2, v2)" "?c3 = Inr (r3, v3)"
      "cell_CvS_ppa = Inr (r4, v4)" "?c5 = Inr (r5, v5)" "cell_CvS_ffa = Inr (r6, v6)"
      by (metis inr)
    from sweep_all_succeed [OF this] show ?thesis by blast
  qed
  show ?thesis using fail ok by auto
qed

theorem sweep_failure_aborts_witness:
  "sweep est_perfect example_z_maps example_task_label example_run_label () () ()
     (Inl SyntaxError)
     (run_class_zmap est_perfect example_z_maps example_task_label example_run_label ()
        [''cat'', ''shoe''])
   = Inl NameError
   \<and> (\<exists>df. sweep est_perfect example_z_maps example_task_label example_run_label () () ()
         (run_class_zmap est_perfect example_z_maps example_task_label example_run_label ()
            [''cat'', ''shoe''])
         (run_class_zmap est_perfect example_z_maps example_task_label example_run_label ()
            [''cat'', ''shoe''])
       = Inr df)"
  using
    sweep_failure_aborts [of est_perfect example_z_maps example_task_label example_run_label
      "()" "()" "Inl SyntaxError" "()"
      "run_class_zmap est_perfect example_z_maps example_task_label example_run_label ()
         [''cat'', ''shoe'']"]
    sweep_failure_aborts [of est_perfect example_z_maps example_task_label example_run_label
      "()" "()"
      "run_class_zmap est_perfect example_z_maps example_task_label example_run_label ()
         [''cat'', ''shoe'']" "()"
      "run_class_zmap est_perfect example_z_maps example_task_label example_run_label ()
         [''cat'', ''shoe'']"]
  by (simp add: example_FvH example_CvS)

text \<open>
  C6 as stated fails: with labels that hold faces and houses only, the face against house
  combination succeeds, the cat against shoe combination raises (empty selection), and the
  sweep ends in NameError with no table.
\<close>

theorem sweep_abort_counterexample:
  "run_class_zmap est_perfect [(), (), (), ()] [''face'', ''house'', ''face'', ''house'']
     [0, 0, 1, 1] () [''face'', ''house'']
   = Inr (\<lparr>rep_classes = [''face'', ''house''], rep_accuracy = Finite 1, rep_chance = 1/2\<rparr>,
          Finite 1)
   \<and> isl (run_class_zmap est_perfect [(), (), (), ()] [''face'', ''house'', ''face'', ''house'']
     [0, 0, 1, 1] () [''cat'', ''shoe''])
   \<and> sweep est_perfect [(), (), (), ()] [''face'', ''house'', ''face'', ''house''] [0, 0, 1, 1]
       () () ()
       (run_class_zmap est_perfect [(), (), (), ()] [''face'', ''house'', ''face'', ''house'']
          [0, 0, 1, 1] () [''cat'', ''shoe''])
       (run_class_zmap est_perfect [(), (), (), ()] [''face'', ''house'', ''face'', ''house'']
          [0, 0, 1, 1] () [''cat'', ''shoe''])
   = Inl NameError"
proof -
  have "sweep est_perfect [(), (), (), ()] [''face'', ''house'', ''face'', ''house''] [0, 0, 1, 1]
       () () ()
       (run_class_zmap est_perfect [(), (), (), ()] [''face'', ''house'', ''face'', ''house'']
          [0, 0, 1, 1] () [''cat'', ''shoe''])
       (run_class_zmap est_perfect [(), (), (), ()] [''face'', ''house'', ''face'', ''house'']
          [0, 0, 1, 1] () [''cat'', ''shoe''])
   = Inl NameError"
    by (rule sweep_some_fails) (simp add: example_CvS_absent)
  then show ?thesis using example_FvH_only example_CvS_absent by simp
qed

text \<open>
  C8 (as amended). When all six combinations succeed, the results table has one row per
  combination and three columns: the accuracy of the combination times 100, the
  category-pair identifier and the region identifier. It holds no chance level and no
  success or failure flag.
\<close>

theorem sweep_results_table:
  assumes "run_class_zmap est z_maps task_label_glm run_label_glm mask_vt [''face'', ''house'']
             = Inr (rep1, FvH_vtc)"
    and "run_class_zmap est z_maps task_label_glm run_label_glm mask_vt [''cat'', ''shoe'']
             = Inr (rep2, CvS_vtc)"
    and "run_class_zmap est z_maps task_label_glm run_label_glm mask_house [''face'', ''house'']
             = Inr (rep3, FvH_ppa)"
    and "cell_CvS_ppa = Inr (rep4, CvS_ppa)"
    and "run_class_zmap est z_maps task_label_glm run_label_glm mask_face [''face'', ''house'']
             = Inr (rep5, FvH_ffa)"
    and "cell_CvS_ffa = Inr (rep6, CvS_ffa)"
  shows "\<exists>df. sweep est z_maps task_label_glm run_label_glm mask_vt mask_house mask_face
                cell_CvS_ppa cell_CvS_ffa = Inr df
     \<and> map fst df
         = [''Classification accuracy'', ''Classification categories'', ''Region of interest'']
     \<and> map (length \<circ> snd) df = [6, 6, 6]
     \<and> map (df_row df) [0, 1, 2, 3, 4, 5]
         = [[Num (np_times100 FvH_vtc), Str ''Faces vs. Places'', Str ''VTC''],
            [Num (np_times100 FvH_ffa), Str ''Faces vs. Places'', Str ''FFA''],
            [Num (np_times100 FvH_ppa), Str ''Faces vs. Places'', Str ''PPA''],
            [Num (np_times100 CvS_vtc), Str ''Cats vs. Shoes'', Str ''VTC''],
            [Num (np_times100 CvS_ffa), Str ''Cats vs. Shoes'', Str ''FFA''],
            [Num (np_times100 CvS_ppa), Str ''Cats vs. Shoes'', Str ''PPA'']]"
  by (simp add: sweep_all_succeed [OF assms] df_row_def)

theorem sweep_results_table_witness:
  "\<exists>df. sweep est_perfect example_z_maps example_task_label example_run_label () () ()
         (run_class_zmap est_perfect example_z_maps example_task_label example_run_label ()
            [''cat'', ''shoe''])
         (run_class_zmap est_perfect example_z_maps example_task_label example_run_label ()
            [''cat'', ''shoe''])
       = Inr df
     \<and> map (df_row df) [0, 1, 2, 3, 4, 5]
         = [[Num (Finite 100), Str ''Faces vs. Places'', Str ''VTC''],
            [Num (Finite 100), Str ''Faces vs. Places'', Str ''FFA''],
            [Num (Finite 100), Str ''Faces vs. Places'', Str ''PPA''],
            [Num (Finite 100), Str ''Cats vs. Shoes'', Str ''VTC''],
            [Num (Finite 100), Str ''Cats vs. Shoes'', Str ''FFA''],
            [Num (Finite 100), Str ''Cats vs. Shoes'', Str ''PPA'']]"
  using sweep_results_table [OF example_FvH example_CvS example_FvH example_CvS example_FvH
      example_CvS]
  by auto

text \<open>
  C8 as stated fails: the table of a successful sweep has three columns, so a row holds
  three entries, with no chance level and no flag among them.
\<close>

theorem results_table_columns_counterexample:
  "sweep est_perfect example_z_maps example_task_label example_run_label () () ()
     (run_class_zmap est_perfect example_z_maps example_task_label example_run_label ()
        [''cat'', ''shoe''])
     (run_class_zmap est_perfect example_z_maps example_task_label example_run_label ()
        [''cat'', ''shoe''])
   = Inr [(''Classification accuracy'',
            [Num (Finite 100), Num (Finite 100), Num (Finite 100),
             Num (Finite 100), Num (Finite 100), Num (Finite 100)]),
          (''Classification categories'',
            [Str ''Faces vs. Places'', Str ''Faces vs. Places'', Str ''Faces vs. Places'',
             Str ''Cats vs. Shoes'', Str ''Cats vs. Shoes'', Str ''Cats vs. Shoes'']),
          (''Region of interest'',
            [Str ''VTC'', Str ''FFA'', Str ''PPA'', Str ''VTC'', Str ''FFA'', Str ''PPA''])]
   \<and> length (df_row (projr (sweep est_perfect example_z_maps example_task_label
         example_run_label () () ()
         (run_class_zmap est_perfect example_z_maps example_task_label example_run_label ()
            [''cat'', ''shoe''])
         (run_class_zmap est_perfect example_z_maps example_task_label example_run_label ()
            [''cat'', ''shoe'']))) 0) = 3"
  by (simp add: sweep_all_succeed [OF example_FvH example_CvS example_FvH example_CvS example_FvH
      example_CvS] df_row_def)

end
